theory Spec2Isabelle
  imports Complex_Main
begin

section \<open>Time, errors and the document store\<close>

text \<open>
  An instant is a number of microseconds since the epoch, the resolution of Python's
  \<open>datetime\<close>. The source stores instants as ISO-8601 strings in UTC
  (\<open>now.isoformat()\<close>); their string order is the order of the instants, so a stored
  timestamp is modelled by the instant itself. \<open>now.timestamp()\<close> is the instant in
  seconds; Python computes it in floating point, the model uses exact rationals.
  Every reading of the clock (\<open>datetime.now(timezone.utc)\<close>) is a parameter of the
  handler that reads it.
\<close>

type_synonym instant = int

definition timestamp :: "instant \<Rightarrow> rat" where
  "timestamp t = of_int t / 1000000"

definition timedelta_days :: "int \<Rightarrow> int" where
  "timedelta_days n = n * 86400000000"

text \<open>
  \<open>HTTPException(status_code, detail)\<close> as raised by the handlers; \<open>PyException\<close> is
  any other exception (it leaves the handler uncaught and the framework answers 500).
  A detail string with an interpolated number keeps the number; Romanian messages are
  written without diacritics.
\<close>

datatype detail = Msg string | TopupCooldown int

datatype exn = HTTPException int detail | PyException

record ad =
  ad_id :: string
  user_id :: string
  title :: "string option"
  description :: "string option"
  category_id :: "string option"
  subcategory_id :: "string option"
  city_id :: "string option"
  price :: "rat option"
  status :: string
  is_boosted :: bool
  boost_expires_at :: "instant option"
  is_promoted :: bool
  promote_expires_at :: "instant option"
  views :: int
  is_paid :: bool
  auto_topup :: bool
  topup_rank :: rat
  last_topup :: "instant option"
  created_at :: instant
  updated_at :: instant

record payment =
  payment_id :: string
  order_code :: "int option"
  pay_ad_id :: "string option"
  pay_user_id :: string
  payment_type :: "string option"
  amount :: int
  pay_status :: string
  transaction_id :: "string option"
  pay_created_at :: instant
  completed_at :: "instant option"

record user =
  u_user_id :: string
  email :: string
  name :: string
  role :: string
  referral_count :: "int option"
  avg_rating :: "rat option"
  total_reviews :: "int option"

record review =
  review_id :: string
  reviewer_id :: string
  seller_id :: string
  rev_ad_id :: "string option"
  rating :: int

text \<open>
  The collections \<open>db.ads\<close>, \<open>db.payments\<close>, \<open>db.users\<close> and \<open>db.reviews\<close>, each a
  list of documents in insertion order. The fields of a document that the handlers below
  only copy (contact data, images, details, comment, password hash) are left out.
\<close>

record db =
  ads :: "ad list"
  payments :: "payment list"
  users :: "user list"
  reviews :: "review list"

text \<open>\<open>find_one\<close>, \<open>update_one\<close>, \<open>delete_one\<close> act on the first matching document.\<close>

fun find_one :: "('a \<Rightarrow> bool) \<Rightarrow> 'a list \<Rightarrow> 'a option" where
  "find_one P [] = None"
| "find_one P (x # xs) = (if P x then Some x else find_one P xs)"

fun update_one :: "('a \<Rightarrow> bool) \<Rightarrow> ('a \<Rightarrow> 'a) \<Rightarrow> 'a list \<Rightarrow> 'a list" where
  "update_one P f [] = []"
| "update_one P f (x # xs) = (if P x then f x # xs else x # update_one P f xs)"

fun delete_one :: "('a \<Rightarrow> bool) \<Rightarrow> 'a list \<Rightarrow> 'a list" where
  "delete_one P [] = []"
| "delete_one P (x # xs) = (if P x then xs else x # delete_one P xs)"

definition insert_one :: "'a \<Rightarrow> 'a list \<Rightarrow> 'a list" where
  "insert_one x xs = xs @ [x]"

text \<open>
  A notification handed to \<open>asyncio.create_task(send_email_notification(to, template, data))\<close>:
  the recipient and the template; the template data is left out. A handler returns its
  response, the store after the call and the notifications it issued, or the exception
  that ended it.
\<close>

type_synonym notification = "string \<times> string"

type_synonym 'r result = "exn + ('r \<times> db \<times> notification list)"

section \<open>Payment webhook\<close>

text \<open>
  What \<open>json.loads\<close> makes of the event's \<open>MerchantTrns\<close>: the key is missing (the
  default \<open>"{}"\<close> is parsed), the string is not JSON (\<open>JSONDecodeError\<close>), it is a JSON
  object with these \<open>ad_id\<close> and \<open>payment_type\<close> entries, or anything else (a JSON value
  that is no object, or a value that is no string: \<open>trns_data.get\<close> or \<open>json.loads\<close>
  raises an exception the handler does not catch).
\<close>

datatype merchant_trns =
  TrnsMissing | TrnsMalformed | TrnsObject "string option" "string option" | TrnsOther

record event_data =
  TransactionId :: "string option"
  OrderCode :: "int option"
  StatusId :: "string option"
  MerchantTrns :: merchant_trns

fun trns_data :: "merchant_trns \<Rightarrow> exn + (string option \<times> string option)" where
  "trns_data TrnsMissing = Inr (None, None)"
| "trns_data TrnsMalformed = Inr (None, None)"
| "trns_data (TrnsObject a p) = Inr (a, p)"
| "trns_data TrnsOther = Inl PyException"

text \<open>Python truthiness of an optional string: present and not empty.\<close>

fun truthy :: "string option \<Rightarrow> bool" where
  "truthy None = False"
| "truthy (Some x) = (x \<noteq> [])"

definition payment_success_email ::
  "payment option \<Rightarrow> string option \<Rightarrow> db \<Rightarrow> notification list" where
  "payment_success_email pm aid s =
     (case pm of
        None \<Rightarrow> []
      | Some p \<Rightarrow>
          if truthy aid then
            (case find_one (\<lambda>u. u_user_id u = pay_user_id p) (users s) of
               None \<Rightarrow> []
             | Some u \<Rightarrow> if email u \<noteq> [] then [(email u, ''payment_success'')] else [])
          else [])"

text \<open>
  \<open>payment_webhook\<close>: \<open>t_pay\<close> is the clock reading stored in \<open>completed_at\<close>, \<open>t_ad\<close>
  the later reading from which the boost or promotion expiry is computed.
\<close>

definition payment_webhook ::
  "instant \<Rightarrow> instant \<Rightarrow> event_data \<Rightarrow> db \<Rightarrow> string result" where
  "payment_webhook t_pay t_ad ev s =
     (case trns_data (MerchantTrns ev) of
        Inl e \<Rightarrow> Inl e
      | Inr (aid, ptype) \<Rightarrow>
          if StatusId ev = Some ''F'' then
            (let pm = find_one (\<lambda>p. order_code p = OrderCode ev) (payments s);
                 s1 = s\<lparr>payments :=
                        update_one (\<lambda>p. order_code p = OrderCode ev)
                          (\<lambda>p. p\<lparr>pay_status := ''completed'',
                                 transaction_id := TransactionId ev,
                                 completed_at := Some t_pay\<rparr>)
                          (payments s)\<rparr>;
                 s2 = (if ptype = Some ''post_ad'' then
                         s1\<lparr>ads := update_one (\<lambda>a. Some (ad_id a) = aid)
                                     (\<lambda>a. a\<lparr>is_paid := True, status := ''pending''\<rparr>) (ads s1)\<rparr>
                       else if ptype = Some ''boost'' then
                         s1\<lparr>ads := update_one (\<lambda>a. Some (ad_id a) = aid)
                                     (\<lambda>a. a\<lparr>is_boosted := True,
                                            boost_expires_at := Some (t_ad + timedelta_days 1)\<rparr>)
                                     (ads s1)\<rparr>
                       else if ptype = Some ''promote'' then
                         s1\<lparr>ads := update_one (\<lambda>a. Some (ad_id a) = aid)
                                     (\<lambda>a. a\<lparr>is_promoted := True,
                                            promote_expires_at := Some (t_ad + timedelta_days 7)\<rparr>)
                                     (ads s1)\<rparr>
                       else s1)
             in Inr (''received'', s2, payment_success_email pm aid s2))
          else Inr (''received'', s, []))"

section \<open>Authentication\<close>

text \<open>
  \<open>get_current_user\<close> resolves the request's session to a user document or to nothing;
  its outcome is the \<open>auth\<close> argument of every handler that calls \<open>require_auth\<close>.
\<close>

definition require_auth :: "user option \<Rightarrow> exn + user" where
  "require_auth auth =
     (case auth of
        None \<Rightarrow> Inl (HTTPException 401 (Msg ''Not authenticated''))
      | Some u \<Rightarrow> Inr u)"

definition require_admin :: "user option \<Rightarrow> exn + user" where
  "require_admin auth =
     (case require_auth auth of
        Inl e \<Rightarrow> Inl e
      | Inr u \<Rightarrow>
          if role u \<noteq> ''admin'' then Inl (HTTPException 403 (Msg ''Admin access required''))
          else Inr u)"

section \<open>Publishing an ad\<close>

record ad_body =
  b_title :: "string option"
  b_description :: "string option"
  b_category_id :: "string option"
  b_subcategory_id :: "string option"
  b_city_id :: "string option"
  b_price :: "rat option"

text \<open>
  \<open>create_ad\<close>: \<open>uid\<close> stands for \<open>uuid.uuid4().hex[:12]\<close>, \<open>now\<close> for the one clock
  reading. The response is the pair of \<open>ad_id\<close> and \<open>status\<close>.
\<close>

definition create_ad ::
  "user option \<Rightarrow> ad_body \<Rightarrow> string \<Rightarrow> instant \<Rightarrow> db \<Rightarrow> (string \<times> string) result" where
  "create_ad auth body uid now s =
     (case require_auth auth of
        Inl e \<Rightarrow> Inl e
      | Inr usr \<Rightarrow>
          (let is_escort_category = (b_category_id body = Some ''escorts'');
               initial_status = (if is_escort_category then ''pending'' else ''active'');
               new_id = ''ad_'' @ uid;
               ad_doc = \<lparr>ad_id = new_id,
                         user_id = u_user_id usr,
                         title = b_title body,
                         description = b_description body,
                         category_id = b_category_id body,
                         subcategory_id = b_subcategory_id body,
                         city_id = b_city_id body,
                         price = b_price body,
                         status = initial_status,
                         is_boosted = False,
                         boost_expires_at = None,
                         is_promoted = False,
                         promote_expires_at = None,
                         views = 0,
                         is_paid = True,
                         auto_topup = True,
                         topup_rank = (if initial_status = ''active'' then timestamp now else 0),
                         last_topup = (if initial_status = ''active'' then Some now else None),
                         created_at = now,
                         updated_at = now\<rparr>
           in Inr ((new_id, if is_escort_category then ''pending'' else ''active''),
                   s\<lparr>ads := insert_one ad_doc (ads s)\<rparr>,
                   [(''contact@x67digital.com'', ''admin_new_ad'')])))"

section \<open>Manual topup\<close>

text \<open>Python's \<open>int(x)\<close> on a number: truncation towards zero.\<close>

definition py_int :: "rat \<Rightarrow> int" where
  "py_int x = (if 0 \<le> x then \<lfloor>x\<rfloor> else \<lceil>x\<rceil>)"

definition cooldown_minutes :: "user \<Rightarrow> int" where
  "cooldown_minutes usr =
     (if (case referral_count usr of None \<Rightarrow> 0 | Some n \<Rightarrow> n) > 0 then 40 else 60)"

text \<open>
  Minutes between two instants, \<open>(now - last).total_seconds() / 60\<close>, as an exact rational.
\<close>

definition time_since_topup :: "instant \<Rightarrow> instant \<Rightarrow> rat" where
  "time_since_topup now prev = of_int (now - prev) / 1000000 / 60"

text \<open>
  \<open>topup_ad\<close>: \<open>t_check\<close> is the clock reading of the cooldown check, \<open>t_now\<close> the later
  reading written to the ad. The response is \<open>next_topup_available_in\<close>.
\<close>

definition topup_ad ::
  "user option \<Rightarrow> string \<Rightarrow> instant \<Rightarrow> instant \<Rightarrow> db \<Rightarrow> int result" where
  "topup_ad auth aid t_check t_now s =
     (case require_auth auth of
        Inl e \<Rightarrow> Inl e
      | Inr usr \<Rightarrow>
          (case find_one (\<lambda>a. ad_id a = aid) (ads s) of
             None \<Rightarrow> Inl (HTTPException 404 (Msg ''Ad not found''))
           | Some a \<Rightarrow>
               if user_id a \<noteq> u_user_id usr then Inl (HTTPException 403 (Msg ''Not your ad''))
               else if status a \<noteq> ''active'' then
                 Inl (HTTPException 400 (Msg ''Ad must be active to topup''))
               else
                 (case (case last_topup a of
                          None \<Rightarrow> None
                        | Some prev \<Rightarrow>
                            if time_since_topup t_check prev < of_int (cooldown_minutes usr)
                            then Some (py_int (of_int (cooldown_minutes usr)
                                               - time_since_topup t_check prev))
                            else None) of
                    Some remaining \<Rightarrow> Inl (HTTPException 400 (TopupCooldown remaining))
                  | None \<Rightarrow>
                      Inr (cooldown_minutes usr,
                           s\<lparr>ads := update_one (\<lambda>a. ad_id a = aid)
                                       (\<lambda>a. a\<lparr>last_topup := Some t_now,
                                              topup_rank := timestamp t_now\<rparr>)
                                       (ads s)\<rparr>,
                           []))))"

section \<open>Moderation\<close>

text \<open>
  \<open>admin_update_ad_status\<close>: \<open>new_status\<close> is \<open>body.get("status")\<close>; the response is the
  status named in the message.
\<close>

definition admin_update_ad_status ::
  "user option \<Rightarrow> string \<Rightarrow> string option \<Rightarrow> instant \<Rightarrow> db \<Rightarrow> string result" where
  "admin_update_ad_status auth aid new_status now s =
     (case require_admin auth of
        Inl e \<Rightarrow> Inl e
      | Inr adm \<Rightarrow>
          (case new_status of
             None \<Rightarrow> Inl (HTTPException 400 (Msg ''Invalid status''))
           | Some st \<Rightarrow>
               if st \<notin> set [''pending'', ''active'', ''rejected'', ''expired''] then
                 Inl (HTTPException 400 (Msg ''Invalid status''))
               else
                 Inr (st,
                      s\<lparr>ads := update_one (\<lambda>a. ad_id a = aid)
                                  (\<lambda>a. a\<lparr>status := st, updated_at := now\<rparr>) (ads s)\<rparr>,
                      (case find_one (\<lambda>a. ad_id a = aid) (ads s) of
                         None \<Rightarrow> []
                       | Some a \<Rightarrow>
                           (case find_one (\<lambda>u. u_user_id u = user_id a) (users s) of
                              None \<Rightarrow> []
                            | Some u \<Rightarrow>
                                if email u \<noteq> [] then
                                  (if st = ''active'' then [(email u, ''ad_approved'')]
                                   else if st = ''rejected'' then [(email u, ''ad_rejected'')]
                                   else [])
                                else [])))))"

section \<open>Creating a payment order\<close>

definition PAYMENT_AMOUNTS :: "(string \<times> int) list" where
  "PAYMENT_AMOUNTS = [(''post_ad'', 1140), (''boost'', 700), (''promote'', 2999)]"

text \<open>
  What a call to the gateway does: \<open>client.post\<close> (or reading the response as JSON)
  raises, as on a connection error or a timeout, or a response arrives with a status code
  and the one entry of its body the handler reads.
\<close>

datatype 'a http_outcome = Raised | Response int 'a

text \<open>
  \<open>get_viva_access_token\<close>: the body entry is \<open>access_token\<close>; a body without it is a
  \<open>KeyError\<close>.
\<close>

definition get_viva_access_token :: "string option http_outcome \<Rightarrow> exn + string" where
  "get_viva_access_token token_call =
     (case token_call of
        Raised \<Rightarrow> Inl PyException
      | Response code body \<Rightarrow>
          if code \<noteq> 200 then Inl (HTTPException 502 (Msg ''Payment service unavailable''))
          else (case body of None \<Rightarrow> Inl PyException | Some tok \<Rightarrow> Inr tok))"

record payment_body =
  pb_ad_id :: "string option"
  pb_payment_type :: "string option"

text \<open>
  \<open>create_payment_order\<close>: \<open>order_call\<close> is what the order request does once the token
  is there, its body entry \<open>data.get("orderCode")\<close>; \<open>uid\<close> stands for
  \<open>uuid.uuid4().hex[:12]\<close>. The response is the order code and the amount in RON
  (the checkout URL is the order code in a fixed frame).
\<close>

definition create_payment_order ::
  "user option \<Rightarrow> payment_body \<Rightarrow> string option http_outcome \<Rightarrow> int option http_outcome \<Rightarrow>
   string \<Rightarrow> instant \<Rightarrow> db \<Rightarrow> (int option \<times> rat) result" where
  "create_payment_order auth body token_call order_call uid now s =
     (case require_auth auth of
        Inl e \<Rightarrow> Inl e
      | Inr usr \<Rightarrow>
          (case (case pb_payment_type body of
                   None \<Rightarrow> None
                 | Some pt \<Rightarrow> map_of PAYMENT_AMOUNTS pt) of
             None \<Rightarrow> Inl (HTTPException 400 (Msg ''Invalid payment type''))
           | Some amt \<Rightarrow>
               (case get_viva_access_token token_call of
                  Inl e \<Rightarrow> Inl (HTTPException 502 (Msg ''Payment service unavailable''))
                | Inr access_token \<Rightarrow>
                    (case order_call of
                       Raised \<Rightarrow> Inl PyException
                     | Response code oc \<Rightarrow>
                         if code \<noteq> 200 then
                           Inl (HTTPException 502 (Msg ''Failed to create payment order''))
                         else
                           Inr ((oc, of_int amt / 100),
                                s\<lparr>payments :=
                                    insert_one
                                      \<lparr>payment_id = ''pay_'' @ uid,
                                       order_code = oc,
                                       pay_ad_id = pb_ad_id body,
                                       pay_user_id = u_user_id usr,
                                       payment_type = pb_payment_type body,
                                       amount = amt,
                                       pay_status = ''pending'',
                                       transaction_id = None,
                                       pay_created_at = now,
                                       completed_at = None\<rparr>
                                      (payments s)\<rparr>,
                                [])))))"

section \<open>Reviews and the seller's rating\<close>

text \<open>
  \<open>update_seller_rating\<close>: the aggregation pipeline yields one group for the seller's
  reviews, or no group when there is no review. \<open>rnd\<close> stands for Python's
  \<open>round(x, 1)\<close> on the floating-point mean, which is outside this embedding.
\<close>

definition update_seller_rating :: "(rat \<Rightarrow> rat) \<Rightarrow> string \<Rightarrow> db \<Rightarrow> db" where
  "update_seller_rating rnd sid s =
     (let rs = filter (\<lambda>r. seller_id r = sid) (reviews s) in
      if rs \<noteq> [] then
        s\<lparr>users := update_one (\<lambda>u. u_user_id u = sid)
                    (\<lambda>u. u\<lparr>avg_rating :=
                             Some (rnd (of_int (sum_list (map rating rs)) / of_int (int (length rs)))),
                           total_reviews := Some (int (length rs))\<rparr>)
                    (users s)\<rparr>
      else s)"

record review_create =
  rc_seller_id :: string
  rc_ad_id :: "string option"
  rc_rating :: int

definition create_review ::
  "(rat \<Rightarrow> rat) \<Rightarrow> user option \<Rightarrow> review_create \<Rightarrow> string \<Rightarrow> db \<Rightarrow> string result" where
  "create_review rnd auth data uid s =
     (case require_auth auth of
        Inl e \<Rightarrow> Inl e
      | Inr usr \<Rightarrow>
          if rc_rating data < 1 \<or> rc_rating data > 5 then
            Inl (HTTPException 400 (Msg ''Rating-ul trebuie sa fie intre 1 si 5''))
          else if rc_seller_id data = u_user_id usr then
            Inl (HTTPException 400 (Msg ''Nu poti lasa o recenzie pentru tine insuti''))
          else
            (case find_one (\<lambda>u. u_user_id u = rc_seller_id data) (users s) of
               None \<Rightarrow> Inl (HTTPException 404 (Msg ''Vanzatorul nu a fost gasit''))
             | Some seller \<Rightarrow>
                 (case find_one (\<lambda>r. reviewer_id r = u_user_id usr
                                      \<and> seller_id r = rc_seller_id data
                                      \<and> rev_ad_id r = rc_ad_id data) (reviews s) of
                    Some existing_review \<Rightarrow>
                      Inl (HTTPException 400
                             (Msg ''Ai lasat deja o recenzie pentru acest vanzator''))
                  | None \<Rightarrow>
                      Inr (''rev_'' @ uid,
                           update_seller_rating rnd (rc_seller_id data)
                             (s\<lparr>reviews :=
                                  insert_one
                                    \<lparr>review_id = ''rev_'' @ uid,
                                     reviewer_id = u_user_id usr,
                                     seller_id = rc_seller_id data,
                                     rev_ad_id = rc_ad_id data,
                                     rating = rc_rating data\<rparr>
                                    (reviews s)\<rparr>),
                           []))))"

definition delete_review ::
  "(rat \<Rightarrow> rat) \<Rightarrow> user option \<Rightarrow> string \<Rightarrow> db \<Rightarrow> unit result" where
  "delete_review rnd auth rid s =
     (case require_auth auth of
        Inl e \<Rightarrow> Inl e
      | Inr usr \<Rightarrow>
          (case find_one (\<lambda>r. review_id r = rid) (reviews s) of
             None \<Rightarrow> Inl (HTTPException 404 (Msg ''Recenzia nu a fost gasita''))
           | Some rv \<Rightarrow>
               if reviewer_id rv \<noteq> u_user_id usr \<and> role usr \<noteq> ''admin'' then
                 Inl (HTTPException 403 (Msg ''Nu ai permisiunea sa stergi aceasta recenzie''))
               else
                 Inr ((),
                      update_seller_rating rnd (seller_id rv)
                        (s\<lparr>reviews := delete_one (\<lambda>r. review_id r = rid) (reviews s)\<rparr>),
                      [])))"

section \<open>Listing ads\<close>

text \<open>
  The values the sort keys take, compared as MongoDB compares them: null before numbers,
  numbers before strings, strings before booleans, \<open>false\<close> before \<open>true\<close>. The strings
  among the sort keys are the stored timestamps, compared as instants.
\<close>

datatype bson = BNull | BNum rat | BStr instant | BBool bool

fun type_order :: "bson \<Rightarrow> nat" where
  "type_order BNull = 0"
| "type_order (BNum x) = 1"
| "type_order (BStr x) = 2"
| "type_order (BBool x) = 3"

fun bson_less :: "bson \<Rightarrow> bson \<Rightarrow> bool" where
  "bson_less (BNum x) (BNum y) = (x < y)"
| "bson_less (BStr x) (BStr y) = (x < y)"
| "bson_less (BBool x) (BBool y) = (\<not> x \<and> y)"
| "bson_less x y = (type_order x < type_order y)"











section \<open>The rank of an ad and its last topup\<close>

text \<open>
  The source writes \<open>topup_rank\<close> and \<open>last_topup\<close> in two places only, and always
  together: the rank is the timestamp of the last topup, or 0 when there was none.
\<close>

definition topup_consistent :: "ad \<Rightarrow> bool" where
  "topup_consistent a =
     (case last_topup a of None \<Rightarrow> topup_rank a = 0 | Some t \<Rightarrow> topup_rank a = timestamp t)"

section \<open>The store after a call, and a small store to run the handlers on\<close>

text \<open>A handler that raises has written nothing: every exception above is raised before the
  first write of its handler.\<close>

definition store_after :: "db \<Rightarrow> 'r result \<Rightarrow> db" where
  "store_after s r = (case r of Inl e \<Rightarrow> s | Inr (x, s', ns) \<Rightarrow> s')"

definition ex_user :: user where
  "ex_user = \<lparr>u_user_id = ''user_1'', email = ''ana@example.ro'', name = ''Ana'', role = ''user'',
              referral_count = None, avg_rating = None, total_reviews = None\<rparr>"

definition ex_ad :: ad where
  "ex_ad = \<lparr>ad_id = ''ad_1'', user_id = ''user_1'', title = Some ''Bicicleta'',
            description = Some ''Stare buna'', category_id = Some ''sport'',
            subcategory_id = None, city_id = Some ''cluj'', price = Some 100,
            status = ''active'', is_boosted = False, boost_expires_at = None,
            is_promoted = False, promote_expires_at = None, views = 0, is_paid = True,
            auto_topup = True, topup_rank = 5, last_topup = Some 5000000,
            created_at = 5000000, updated_at = 5000000\<rparr>"

definition ex_payment :: payment where
  "ex_payment = \<lparr>payment_id = ''pay_1'', order_code = Some 1001, pay_ad_id = Some ''ad_1'',
                 pay_user_id = ''user_1'', payment_type = Some ''boost'', amount = 700,
                 pay_status = ''pending'', transaction_id = None, pay_created_at = 6000000,
                 completed_at = None\<rparr>"

definition ex_db :: db where
  "ex_db = \<lparr>ads = [ex_ad], payments = [ex_payment], users = [ex_user], reviews = []\<rparr>"

definition boost_event :: event_data where
  "boost_event = \<lparr>TransactionId = Some ''tx_1'', OrderCode = Some 1001, StatusId = Some ''F'',
                  MerchantTrns = TrnsObject (Some ''ad_1'') (Some ''boost'')\<rparr>"


definition sport_body :: ad_body where
  "sport_body = \<lparr>b_title = Some ''Minge'', b_description = Some ''Noua'',
                 b_category_id = Some ''sport'', b_subcategory_id = None,
                 b_city_id = Some ''cluj'', b_price = Some 20\<rparr>"

definition escort_body :: ad_body where
  "escort_body = sport_body\<lparr>b_category_id := Some ''escorts''\<rparr>"

definition ex_admin :: user where
  "ex_admin = \<lparr>u_user_id = ''user_0'', email = ''admin@example.ro'', name = ''Admin'',
               role = ''admin'', referral_count = None, avg_rating = None,
               total_reviews = None\<rparr>"

definition ex_seller :: user where
  "ex_seller = \<lparr>u_user_id = ''user_2'', email = ''ion@example.ro'', name = ''Ion'',
                role = ''user'', referral_count = None, avg_rating = None,
                total_reviews = None\<rparr>"

definition review_db :: db where
  "review_db = \<lparr>ads = [], payments = [], users = [ex_user, ex_seller], reviews = []\<rparr>"

definition five_stars :: review_create where
  "five_stars = \<lparr>rc_seller_id = ''user_2'', rc_ad_id = None, rc_rating = 5\<rparr>"

definition boost_order :: payment_body where
  "boost_order = \<lparr>pb_ad_id = Some ''ad_1'', pb_payment_type = Some ''boost''\<rparr>"






section \<open>Facts about the store operations\<close>

lemma find_one_update_one:
  "(\<And>x. P x \<Longrightarrow> P (f x)) \<Longrightarrow> find_one P (update_one P f xs) = map_option f (find_one P xs)"
  by (induction xs) auto



lemma update_one_not_found:
  "find_one P xs = None \<Longrightarrow> update_one P f xs = xs"
  by (induction xs) (auto split: if_splits)

lemma update_one_ident: "update_one P (\<lambda>x. x) xs = xs"
  by (induction xs) auto

section \<open>Webhook reconciliation\<close>





lemma find_one_update_one_Some:
  "(\<And>x. P x \<Longrightarrow> P (f x)) \<Longrightarrow> find_one P (update_one P f xs) = Some y \<Longrightarrow> \<exists>x. y = f x"
  by (auto simp: find_one_update_one)







text \<open>
  Claim C10. A success event with parseable correlation data is accepted, and the ads
  after it are the ads before it with the first ad of the correlation data's \<open>ad_id\<close>
  marked paid and pending (\<open>post_ad\<close>), boosted for 24 hours (\<open>boost\<close>) or promoted for
  7 days (\<open>promote\<close>): the payment orders do not enter. Without an order of the event's
  order code the ad is changed all the same, no order is changed and no notification is
  issued; a notification is issued only when such an order exists.
\<close>

theorem webhook_effect_keyed_by_correlation:
  assumes "StatusId ev = Some ''F''" and "MerchantTrns ev = TrnsObject aid ptype"
  shows "\<exists>s' ns. payment_webhook t u ev s = Inr (''received'', s', ns)
     \<and> ads s' = update_one (\<lambda>a. Some (ad_id a) = aid)
                (\<lambda>a. if ptype = Some ''post_ad'' then a\<lparr>is_paid := True, status := ''pending''\<rparr>
                      else if ptype = Some ''boost'' then
                        a\<lparr>is_boosted := True, boost_expires_at := Some (u + 86400000000)\<rparr>
                      else if ptype = Some ''promote'' then
                        a\<lparr>is_promoted := True, promote_expires_at := Some (u + 604800000000)\<rparr>
                      else a) (ads s)
     \<and> (find_one (\<lambda>p. order_code p = OrderCode ev) (payments s) = None
          \<longrightarrow> ns = [] \<and> payments s' = payments s)
     \<and> (ns \<noteq> [] \<longrightarrow> find_one (\<lambda>p. order_code p = OrderCode ev) (payments s) \<noteq> None)"
  using assms
  by (auto simp: payment_webhook_def Let_def timedelta_days_def update_one_ident
        payment_success_email_def update_one_not_found split: option.splits)

text \<open>Claim C10 at the boost event, on the example store without any payment order.\<close>

theorem webhook_effect_keyed_by_correlation_witness:
  "StatusId boost_event = Some ''F''
   \<and> (\<exists>s' ns. payment_webhook 1000000 1000001 boost_event (ex_db\<lparr>payments := []\<rparr>)
                 = Inr (''received'', s', ns)
        \<and> map boost_expires_at (ads s') = [Some 86401000001]
        \<and> map is_boosted (ads s') = [True] \<and> ns = [] \<and> payments s' = [])"
proof -
  have h1: "StatusId boost_event = Some ''F''" by (simp add: boost_event_def)
  have h2: "MerchantTrns boost_event = TrnsObject (Some ''ad_1'') (Some ''boost'')"
    by (simp add: boost_event_def)
  from webhook_effect_keyed_by_correlation[OF h1 h2, of 1000000 1000001 "ex_db\<lparr>payments := []\<rparr>"]
  show ?thesis using h1 by (auto simp: ex_db_def ex_ad_def)
qed

section \<open>Publishing and topping up\<close>

lemma find_one_append:
  "find_one P (xs @ [x]) =
     (case find_one P xs of None \<Rightarrow> if P x then Some x else None | Some y \<Rightarrow> Some y)"
  by (induction xs) auto

lemma timestamp_mono: "timestamp a < timestamp b \<longleftrightarrow> a < b"
  by (simp add: timestamp_def divide_less_cancel)

text \<open>
  Claim C2. A publish request of an authenticated user appends one ad and answers with its
  id and status. The ad is filed under the category, subcategory and city of the request,
  with the request's title, description and price, neither boosted nor promoted. The
  category that requires manual moderation is the one with id \<open>escorts\<close> (the source
  names it in the handler): an ad of that category is \<open>pending\<close> with \<open>topup_rank\<close> 0
  and no \<open>last_topup\<close>; an ad of any other category (also when the request names none)
  is \<open>active\<close>, and its \<open>topup_rank\<close> is the creation instant in seconds, which is not
  below the publish time.
\<close>

theorem create_ad_status_and_rank:
  "\<exists>a. create_ad (Some usr) body uid now s
          = Inr ((ad_id a, status a), s\<lparr>ads := ads s @ [a]\<rparr>,
                 [(''contact@x67digital.com'', ''admin_new_ad'')])
      \<and> ad_id a = ''ad_'' @ uid \<and> user_id a = u_user_id usr
      \<and> category_id a = b_category_id body \<and> subcategory_id a = b_subcategory_id body
      \<and> city_id a = b_city_id body \<and> title a = b_title body
      \<and> description a = b_description body \<and> price a = b_price body
      \<and> \<not> is_boosted a \<and> boost_expires_at a = None
      \<and> \<not> is_promoted a \<and> promote_expires_at a = None
      \<and> views a = 0 \<and> is_paid a \<and> auto_topup a
      \<and> created_at a = now \<and> updated_at a = now
      \<and> (category_id a = Some ''escorts''
            \<longrightarrow> status a = ''pending'' \<and> topup_rank a = 0 \<and> last_topup a = None)
      \<and> (category_id a \<noteq> Some ''escorts''
            \<longrightarrow> status a = ''active'' \<and> topup_rank a = timestamp (created_at a)
                \<and> timestamp now \<le> topup_rank a \<and> last_topup a = Some now)"
proof -
  let ?st = "if b_category_id body = Some ''escorts'' then ''pending'' else ''active''"
  let ?a = "\<lparr>ad_id = ''ad_'' @ uid, user_id = u_user_id usr, title = b_title body,
             description = b_description body, category_id = b_category_id body,
             subcategory_id = b_subcategory_id body, city_id = b_city_id body,
             price = b_price body, status = ?st, is_boosted = False,
             boost_expires_at = None, is_promoted = False, promote_expires_at = None,
             views = 0, is_paid = True, auto_topup = True,
             topup_rank = (if ?st = ''active'' then timestamp now else 0),
             last_topup = (if ?st = ''active'' then Some now else None),
             created_at = now, updated_at = now\<rparr>"
  show ?thesis
    by (rule exI[of _ ?a]) (simp add: create_ad_def require_auth_def Let_def insert_one_def)
qed

text \<open>
  Claim C2 on the example store: a sports request gives an active sports ad of rank 7, an
  escorts request a pending escorts ad of rank 0.
\<close>

theorem create_ad_status_and_rank_witness:
  "(\<exists>a. create_ad (Some ex_user) sport_body ''0123456789ab'' 7000000 ex_db
          = Inr ((''ad_0123456789ab'', ''active''), ex_db\<lparr>ads := ads ex_db @ [a]\<rparr>,
                 [(''contact@x67digital.com'', ''admin_new_ad'')])
       \<and> category_id a = Some ''sport'' \<and> status a = ''active'' \<and> topup_rank a = 7)
   \<and> (\<exists>a. create_ad (Some ex_user) escort_body ''0123456789ab'' 7000000 ex_db
          = Inr ((''ad_0123456789ab'', ''pending''), ex_db\<lparr>ads := ads ex_db @ [a]\<rparr>,
                 [(''contact@x67digital.com'', ''admin_new_ad'')])
       \<and> category_id a = Some ''escorts'' \<and> status a = ''pending'' \<and> topup_rank a = 0)"
proof -
  have c1: "b_category_id sport_body = Some ''sport''" by (simp add: sport_body_def)
  have c2: "b_category_id escort_body = Some ''escorts''"
    by (simp add: escort_body_def sport_body_def)
  have t: "timestamp 7000000 = 7" by (simp add: timestamp_def)
  from create_ad_status_and_rank[of ex_user sport_body "''0123456789ab''" 7000000 ex_db]
  obtain a where a: "create_ad (Some ex_user) sport_body ''0123456789ab'' 7000000 ex_db
          = Inr ((ad_id a, status a), ex_db\<lparr>ads := ads ex_db @ [a]\<rparr>,
                 [(''contact@x67digital.com'', ''admin_new_ad'')])"
      "ad_id a = ''ad_'' @ ''0123456789ab''" "category_id a = b_category_id sport_body"
      "created_at a = 7000000"
      "category_id a \<noteq> Some ''escorts''
         \<longrightarrow> status a = ''active'' \<and> topup_rank a = timestamp (created_at a)
             \<and> timestamp 7000000 \<le> topup_rank a \<and> last_topup a = Some 7000000"
    by (elim exE conjE)
  from create_ad_status_and_rank[of ex_user escort_body "''0123456789ab''" 7000000 ex_db]
  obtain b where b: "create_ad (Some ex_user) escort_body ''0123456789ab'' 7000000 ex_db
          = Inr ((ad_id b, status b), ex_db\<lparr>ads := ads ex_db @ [b]\<rparr>,
                 [(''contact@x67digital.com'', ''admin_new_ad'')])"
      "ad_id b = ''ad_'' @ ''0123456789ab''" "category_id b = b_category_id escort_body"
      "category_id b = Some ''escorts''
         \<longrightarrow> status b = ''pending'' \<and> topup_rank b = 0 \<and> last_topup b = None"
    by (elim exE conjE)
  have a': "status a = ''active''" "topup_rank a = 7" "category_id a = Some ''sport''"
    using a(3,4,5) c1 t by simp_all
  have b': "status b = ''pending''" "topup_rank b = 0" "category_id b = Some ''escorts''"
    using b(3,4) c2 by simp_all
  have "\<exists>a. create_ad (Some ex_user) sport_body ''0123456789ab'' 7000000 ex_db
          = Inr ((''ad_0123456789ab'', ''active''), ex_db\<lparr>ads := ads ex_db @ [a]\<rparr>,
                 [(''contact@x67digital.com'', ''admin_new_ad'')])
       \<and> category_id a = Some ''sport'' \<and> status a = ''active'' \<and> topup_rank a = 7"
    using a(1,2) a' by (intro exI[of _ a]) simp
  moreover have "\<exists>a. create_ad (Some ex_user) escort_body ''0123456789ab'' 7000000 ex_db
          = Inr ((''ad_0123456789ab'', ''pending''), ex_db\<lparr>ads := ads ex_db @ [a]\<rparr>,
                 [(''contact@x67digital.com'', ''admin_new_ad'')])
       \<and> category_id a = Some ''escorts'' \<and> status a = ''pending'' \<and> topup_rank a = 0"
    using b(1,2) b' by (intro exI[of _ b]) simp
  ultimately show ?thesis by (intro conjI)
qed

lemma cooldown_minutes_cases:
  "cooldown_minutes usr = (case referral_count usr of None \<Rightarrow> 60 | Some n \<Rightarrow> if 1 \<le> n then 40 else 60)"
  by (auto simp: cooldown_minutes_def split: option.splits)

lemma cooldown_minutes_pos: "0 < cooldown_minutes usr"
  by (simp add: cooldown_minutes_def)

lemma py_int_floor: "0 \<le> x \<Longrightarrow> py_int x = \<lfloor>x\<rfloor>"
  by (simp add: py_int_def)

lemma topup_ad_found:
  assumes "find_one (\<lambda>x. ad_id x = aid) (ads s) = Some a"
    and "user_id a = u_user_id usr" and "status a = ''active''"
  shows "topup_ad (Some usr) aid t_check t_now s =
     (case last_topup a of
        None \<Rightarrow> Inr (cooldown_minutes usr,
                     s\<lparr>ads := update_one (\<lambda>x. ad_id x = aid)
                                 (\<lambda>x. x\<lparr>last_topup := Some t_now, topup_rank := timestamp t_now\<rparr>)
                                 (ads s)\<rparr>, [])
      | Some prev \<Rightarrow>
          if time_since_topup t_check prev < of_int (cooldown_minutes usr)
          then Inl (HTTPException 400
                 (TopupCooldown \<lfloor>of_int (cooldown_minutes usr) - time_since_topup t_check prev\<rfloor>))
          else Inr (cooldown_minutes usr,
                     s\<lparr>ads := update_one (\<lambda>x. ad_id x = aid)
                                 (\<lambda>x. x\<lparr>last_topup := Some t_now, topup_rank := timestamp t_now\<rparr>)
                                 (ads s)\<rparr>, []))"
  using assms
  by (auto simp: topup_ad_def require_auth_def py_int_floor split: option.splits)


lemma time_since_topup_minutes: "time_since_topup now prev = of_int (now - prev) / 60000000"
  by (simp add: time_since_topup_def)

lemma elapsed_pos:
  assumes "\<not> time_since_topup t_check prev < of_int (cooldown_minutes usr)"
  shows "prev < t_check"
proof -
  have "(0::rat) < of_int (cooldown_minutes usr)"
    using cooldown_minutes_pos[of usr] by simp
  with assms have "0 < time_since_topup t_check prev" by linarith
  then have "(0::rat) < of_int (t_check - prev)"
    by (simp add: time_since_topup_def zero_less_divide_iff)
  then show ?thesis by simp
qed

text \<open>
  Claim C3. The owner tops up an active ad; the clock does not run backwards between the
  cooldown check and the write. The required cooldown is 40 minutes with at least one
  referral and 60 otherwise. The call fails exactly when there is a prior \<open>last_topup\<close>
  and the minutes elapsed since it are below the cooldown, and then with the error 400
  that carries the remaining whole minutes; so a first topup always succeeds. A topup that
  does not fail changes nothing but the ad, whose \<open>last_topup\<close> and \<open>topup_rank\<close>
  become the instant of the write; where the rank was that of the prior topup (as
  \<open>create_ad\<close> and \<open>topup_ad\<close>, the only writers of the two fields, leave it), the
  rank strictly increases.
\<close>

theorem topup_cooldown:
  assumes "find_one (\<lambda>x. ad_id x = aid) (ads s) = Some a"
    and "user_id a = u_user_id usr" and "status a = ''active''"
    and "t_check \<le> t_now"
  shows "cooldown_minutes usr
           = (case referral_count usr of None \<Rightarrow> 60 | Some n \<Rightarrow> if 1 \<le> n then 40 else 60)
     \<and> ((\<exists>e. topup_ad (Some usr) aid t_check t_now s = Inl e)
          \<longleftrightarrow> (\<exists>prev. last_topup a = Some prev
                 \<and> of_int (t_check - prev) / 60000000 < (of_int (cooldown_minutes usr) :: rat)))
     \<and> (\<forall>prev. last_topup a = Some prev
                 \<and> of_int (t_check - prev) / 60000000 < (of_int (cooldown_minutes usr) :: rat)
           \<longrightarrow> topup_ad (Some usr) aid t_check t_now s
                 = Inl (HTTPException 400
                     (TopupCooldown \<lfloor>of_int (cooldown_minutes usr)
                                     - (of_int (t_check - prev) / 60000000 :: rat)\<rfloor>)))
     \<and> ((\<forall>e. topup_ad (Some usr) aid t_check t_now s \<noteq> Inl e)
           \<longrightarrow> (\<exists>s' a'. topup_ad (Some usr) aid t_check t_now s
                           = Inr (cooldown_minutes usr, s', [])
                 \<and> payments s' = payments s \<and> users s' = users s \<and> reviews s' = reviews s
                 \<and> find_one (\<lambda>x. ad_id x = aid) (ads s') = Some a'
                 \<and> a' = a\<lparr>last_topup := Some t_now, topup_rank := timestamp t_now\<rparr>
                 \<and> (\<forall>prev. last_topup a = Some prev \<and> topup_rank a = timestamp prev
                        \<longrightarrow> topup_rank a < topup_rank a')))"
proof -
  note eq = topup_ad_found[OF assms(1-3), of t_check t_now, unfolded time_since_topup_minutes]
  let ?s' = "s\<lparr>ads := update_one (\<lambda>x. ad_id x = aid)
                 (\<lambda>x. x\<lparr>last_topup := Some t_now, topup_rank := timestamp t_now\<rparr>) (ads s)\<rparr>"
  have f: "find_one (\<lambda>x. ad_id x = aid) (ads ?s')
             = Some (a\<lparr>last_topup := Some t_now, topup_rank := timestamp t_now\<rparr>)"
    using assms(1) by (simp add: find_one_update_one)
  have c1: "cooldown_minutes usr
           = (case referral_count usr of None \<Rightarrow> 60 | Some n \<Rightarrow> if 1 \<le> n then 40 else 60)"
    by (rule cooldown_minutes_cases)
  have c2: "(\<exists>e. topup_ad (Some usr) aid t_check t_now s = Inl e)
          \<longleftrightarrow> (\<exists>prev. last_topup a = Some prev
                 \<and> of_int (t_check - prev) / 60000000 < (of_int (cooldown_minutes usr) :: rat))"
    unfolding eq by (cases "last_topup a") auto
  have c3: "topup_ad (Some usr) aid t_check t_now s
                 = Inl (HTTPException 400
                     (TopupCooldown \<lfloor>of_int (cooldown_minutes usr)
                                     - (of_int (t_check - prev) / 60000000 :: rat)\<rfloor>))"
    if "last_topup a = Some prev
                 \<and> of_int (t_check - prev) / 60000000 < (of_int (cooldown_minutes usr) :: rat)"
    for prev
    unfolding eq using that by simp
  have c4: "\<exists>s' a'. topup_ad (Some usr) aid t_check t_now s
                           = Inr (cooldown_minutes usr, s', [])
                 \<and> payments s' = payments s \<and> users s' = users s \<and> reviews s' = reviews s
                 \<and> find_one (\<lambda>x. ad_id x = aid) (ads s') = Some a'
                 \<and> a' = a\<lparr>last_topup := Some t_now, topup_rank := timestamp t_now\<rparr>
                 \<and> (\<forall>prev. last_topup a = Some prev \<and> topup_rank a = timestamp prev
                        \<longrightarrow> topup_rank a < topup_rank a')"
    if ok: "\<forall>e. topup_ad (Some usr) aid t_check t_now s \<noteq> Inl e"
  proof -
    have r: "topup_ad (Some usr) aid t_check t_now s = Inr (cooldown_minutes usr, ?s', [])"
      using ok unfolding eq by (cases "last_topup a") (auto split: if_splits)
    have inc: "topup_rank a < timestamp t_now"
      if p: "last_topup a = Some prev \<and> topup_rank a = timestamp prev" for prev
    proof -
      have "\<not> of_int (t_check - prev) / 60000000 < (of_int (cooldown_minutes usr) :: rat)"
        using ok p unfolding eq by auto
      then have "prev < t_check"
        using elapsed_pos[of t_check prev usr] by (simp add: time_since_topup_minutes)
      with assms(4) have "prev < t_now" by simp
      then show ?thesis using p by (simp add: timestamp_mono)
    qed
    show ?thesis
      by (rule exI[of _ ?s'], rule exI[of _ "a\<lparr>last_topup := Some t_now, topup_rank := timestamp t_now\<rparr>"])
         (use r f inc in simp)
  qed
  show ?thesis using c1 c2 c3 c4 by blast
qed

text \<open>Claim C3 on the example ad, topped up at second 5: 30 minutes later and 60 minutes later.\<close>

theorem topup_cooldown_witness:
  "find_one (\<lambda>x. ad_id x = ''ad_1'') (ads ex_db) = Some ex_ad
   \<and> user_id ex_ad = u_user_id ex_user \<and> status ex_ad = ''active''
   \<and> last_topup ex_ad = Some 5000000
   \<and> topup_ad (Some ex_user) ''ad_1'' 1805000000 1805000001 ex_db
       = Inl (HTTPException 400 (TopupCooldown 30))
   \<and> (\<exists>s' a'. topup_ad (Some ex_user) ''ad_1'' 3605000000 3605000001 ex_db = Inr (60, s', [])
         \<and> find_one (\<lambda>x. ad_id x = ''ad_1'') (ads s') = Some a'
         \<and> last_topup a' = Some 3605000001 \<and> topup_rank ex_ad < topup_rank a')"
proof -
  have h1: "find_one (\<lambda>x. ad_id x = ''ad_1'') (ads ex_db) = Some ex_ad"
    by (simp add: ex_db_def ex_ad_def)
  have h2: "user_id ex_ad = u_user_id ex_user" by (simp add: ex_ad_def ex_user_def)
  have h3: "status ex_ad = ''active''" by (simp add: ex_ad_def)
  have h4: "(1805000000::int) \<le> 1805000001" by simp
  have h5: "(3605000000::int) \<le> 3605000001" by simp
  have l: "last_topup ex_ad = Some 5000000" by (simp add: ex_ad_def)
  have r: "topup_rank ex_ad = timestamp 5000000" by (simp add: ex_ad_def timestamp_def)
  have cd: "cooldown_minutes ex_user = 60" by (simp add: cooldown_minutes_def ex_user_def)
  note A = topup_cooldown[OF h1 h2 h3 h4]
  note B = topup_cooldown[OF h1 h2 h3 h5]
  have p: "last_topup ex_ad = Some 5000000
           \<and> of_int (1805000000 - 5000000) / 60000000 < (of_int (cooldown_minutes ex_user) :: rat)"
    by (simp add: l cd)
  have a: "topup_ad (Some ex_user) ''ad_1'' 1805000000 1805000001 ex_db
       = Inl (HTTPException 400 (TopupCooldown 30))"
    using A[THEN conjunct2, THEN conjunct2, THEN conjunct1, rule_format, OF p]
    by (simp add: cd)
  have n: "\<not> (\<exists>prev. last_topup ex_ad = Some prev
             \<and> of_int (3605000000 - prev) / 60000000 < (of_int (cooldown_minutes ex_user) :: rat))"
    by (simp add: l cd)
  have ok: "\<forall>e. topup_ad (Some ex_user) ''ad_1'' 3605000000 3605000001 ex_db \<noteq> Inl e"
    using B[THEN conjunct2, THEN conjunct1] n by blast
  from B[THEN conjunct2, THEN conjunct2, THEN conjunct2, THEN mp, OF ok]
  obtain s' a' where
    s1: "topup_ad (Some ex_user) ''ad_1'' 3605000000 3605000001 ex_db
           = Inr (cooldown_minutes ex_user, s', [])"
    and s2: "find_one (\<lambda>x. ad_id x = ''ad_1'') (ads s') = Some a'"
    and s3: "a' = ex_ad\<lparr>last_topup := Some 3605000001, topup_rank := timestamp 3605000001\<rparr>"
    and s4: "\<forall>prev. last_topup ex_ad = Some prev \<and> topup_rank ex_ad = timestamp prev
        \<longrightarrow> topup_rank ex_ad < topup_rank a'"
    by blast
  have s5: "topup_rank ex_ad < topup_rank a'"
    using s4[rule_format, of 5000000] l r by simp
  have s6: "last_topup a' = Some 3605000001" using s3 by simp
  have "\<exists>s' a'. topup_ad (Some ex_user) ''ad_1'' 3605000000 3605000001 ex_db = Inr (60, s', [])
         \<and> find_one (\<lambda>x. ad_id x = ''ad_1'') (ads s') = Some a'
         \<and> last_topup a' = Some 3605000001 \<and> topup_rank ex_ad < topup_rank a'"
    using s1 s2 s5 s6 unfolding cd by blast
  then show ?thesis using h1 h2 h3 l a by blast
qed

text \<open>
  Claim C9. An ad published in a category other than \<open>escorts\<close>, under an id no earlier
  ad has, carries \<open>last_topup\<close> equal to its creation instant; a topup by its owner while
  the minutes elapsed since publication are below the owner's cooldown fails with the
  cooldown error, though the ad was never topped up.
\<close>

theorem publish_starts_cooldown:
  assumes "find_one (\<lambda>x. ad_id x = ''ad_'' @ uid) (ads s) = None"
    and "b_category_id body \<noteq> Some ''escorts''"
    and "u_user_id usr' = u_user_id usr"
    and "of_int (t_check - now) / 60000000 < (of_int (cooldown_minutes usr') :: rat)"
  shows "\<exists>s1 ns a. create_ad (Some usr) body uid now s = Inr ((''ad_'' @ uid, ''active''), s1, ns)
           \<and> find_one (\<lambda>x. ad_id x = ''ad_'' @ uid) (ads s1) = Some a
           \<and> last_topup a = Some now
           \<and> topup_ad (Some usr') (''ad_'' @ uid) t_check t_now s1
               = Inl (HTTPException 400
                   (TopupCooldown \<lfloor>of_int (cooldown_minutes usr')
                                   - (of_int (t_check - now) / 60000000 :: rat)\<rfloor>))"
proof -
  let ?a = "\<lparr>ad_id = ''ad_'' @ uid, user_id = u_user_id usr, title = b_title body,
             description = b_description body, category_id = b_category_id body,
             subcategory_id = b_subcategory_id body, city_id = b_city_id body,
             price = b_price body, status = ''active'', is_boosted = False,
             boost_expires_at = None, is_promoted = False, promote_expires_at = None,
             views = 0, is_paid = True, auto_topup = True,
             topup_rank = timestamp now, last_topup = Some now,
             created_at = now, updated_at = now\<rparr>"
  let ?s1 = "s\<lparr>ads := ads s @ [?a]\<rparr>"
  have c: "create_ad (Some usr) body uid now s
             = Inr ((''ad_'' @ uid, ''active''), ?s1, [(''contact@x67digital.com'', ''admin_new_ad'')])"
    using assms(2) by (simp add: create_ad_def require_auth_def Let_def insert_one_def)
  have f: "find_one (\<lambda>x. ad_id x = ''ad_'' @ uid) (ads ?s1) = Some ?a"
    using assms(1) by (simp add: find_one_append)
  have t: "topup_ad (Some usr') (''ad_'' @ uid) t_check t_now ?s1
               = Inl (HTTPException 400
                   (TopupCooldown \<lfloor>of_int (cooldown_minutes usr')
                                   - (of_int (t_check - now) / 60000000 :: rat)\<rfloor>))"
    using topup_ad_found[OF f, of usr' t_check t_now] assms(3,4)
    by (simp add: time_since_topup_minutes)
  show ?thesis
    by (rule exI[of _ ?s1], rule exI[of _ "[(''contact@x67digital.com'', ''admin_new_ad'')]"],
        rule exI[of _ ?a]) (use c f t in simp)
qed

text \<open>Claim C9 on the example store: published at second 7, topped up ten minutes later.\<close>

theorem publish_starts_cooldown_witness:
  "find_one (\<lambda>x. ad_id x = ''ad_0123456789ab'') (ads ex_db) = None
   \<and> b_category_id sport_body \<noteq> Some ''escorts''
   \<and> (\<exists>s1 ns. create_ad (Some ex_user) sport_body ''0123456789ab'' 7000000 ex_db
                  = Inr ((''ad_0123456789ab'', ''active''), s1, ns)
         \<and> topup_ad (Some ex_user) ''ad_0123456789ab'' 607000000 607000001 s1
             = Inl (HTTPException 400 (TopupCooldown 50)))"
proof -
  have h1: "find_one (\<lambda>x. ad_id x = ''ad_'' @ ''0123456789ab'') (ads ex_db) = None"
    by (simp add: ex_db_def ex_ad_def)
  have h2: "b_category_id sport_body \<noteq> Some ''escorts''" by (simp add: sport_body_def)
  have cd: "cooldown_minutes ex_user = 60" by (simp add: cooldown_minutes_def ex_user_def)
  have h4: "of_int (607000000 - 7000000) / 60000000 < (of_int (cooldown_minutes ex_user) :: rat)"
    by (simp add: cd)
  have fl: "\<lfloor>of_int (cooldown_minutes ex_user) - (of_int (607000000 - 7000000) / 60000000 :: rat)\<rfloor> = 50"
    by (simp add: cd)
  from publish_starts_cooldown[OF h1 h2 refl h4, of 607000001]
  obtain s1 ns where
    c: "create_ad (Some ex_user) sport_body ''0123456789ab'' 7000000 ex_db
       = Inr ((''ad_'' @ ''0123456789ab'', ''active''), s1, ns)"
    and t: "topup_ad (Some ex_user) (''ad_'' @ ''0123456789ab'') 607000000 607000001 s1
       = Inl (HTTPException 400
           (TopupCooldown \<lfloor>of_int (cooldown_minutes ex_user)
                           - (of_int (607000000 - 7000000) / 60000000 :: rat)\<rfloor>))"
    by blast
  have i: "''ad_'' @ ''0123456789ab'' = ''ad_0123456789ab''" by simp
  have "\<exists>s1 ns. create_ad (Some ex_user) sport_body ''0123456789ab'' 7000000 ex_db
                  = Inr ((''ad_0123456789ab'', ''active''), s1, ns)
         \<and> topup_ad (Some ex_user) ''ad_0123456789ab'' 607000000 607000001 s1
             = Inl (HTTPException 400 (TopupCooldown 50))"
    using c t unfolding fl i by blast
  then show ?thesis using h1 h2 unfolding i by blast
qed

section \<open>The topup fields are written together\<close>

text \<open>
  \<open>topup_consistent\<close> holds of an ad whose rank is that of its last topup, or 0 when it
  was never topped up. Every handler above that writes an ad keeps it.
\<close>

lemma list_all_update_one:
  "list_all P xs \<Longrightarrow> (\<And>x. P x \<Longrightarrow> P (f x)) \<Longrightarrow> list_all P (update_one Q f xs)"
  by (induction xs) auto

lemma topup_consistent_kept [simp]:
  "topup_consistent (x\<lparr>is_paid := p, status := st\<rparr>) = topup_consistent x"
  "topup_consistent (x\<lparr>is_boosted := b, boost_expires_at := e\<rparr>) = topup_consistent x"
  "topup_consistent (x\<lparr>is_promoted := b, promote_expires_at := e\<rparr>) = topup_consistent x"
  "topup_consistent (x\<lparr>status := st, updated_at := t\<rparr>) = topup_consistent x"
  "topup_consistent (x\<lparr>last_topup := Some t, topup_rank := timestamp t\<rparr>)"
  by (simp_all add: topup_consistent_def split: option.splits)

lemma create_ad_topup_consistent:
  "list_all topup_consistent (ads s)
   \<Longrightarrow> list_all topup_consistent (ads (store_after s (create_ad auth body uid now s)))"
  by (cases auth)
     (simp_all add: create_ad_def require_auth_def store_after_def Let_def insert_one_def
        topup_consistent_def)

lemma topup_ad_topup_consistent:
  "list_all topup_consistent (ads s)
   \<Longrightarrow> list_all topup_consistent (ads (store_after s (topup_ad auth aid t_check t_now s)))"
  by (auto simp: topup_ad_def require_auth_def store_after_def
        split: option.splits intro!: list_all_update_one)

lemma payment_webhook_topup_consistent:
  "list_all topup_consistent (ads s)
   \<Longrightarrow> list_all topup_consistent (ads (store_after s (payment_webhook t u ev s)))"
  by (cases "MerchantTrns ev")
     (auto simp: payment_webhook_def store_after_def Let_def intro!: list_all_update_one)

lemma admin_update_ad_status_topup_consistent:
  "list_all topup_consistent (ads s)
   \<Longrightarrow> list_all topup_consistent (ads (store_after s (admin_update_ad_status auth aid st now s)))"
  by (auto simp: admin_update_ad_status_def require_admin_def require_auth_def store_after_def
        split: option.splits intro!: list_all_update_one)

section \<open>Unknown ids\<close>

lemma topup_ad_not_found:
  "find_one (\<lambda>a. ad_id a = aid) (ads s) = None
   \<Longrightarrow> topup_ad (Some usr) aid t_check t_now s = Inl (HTTPException 404 (Msg ''Ad not found''))"
  by (simp add: topup_ad_def require_auth_def)

lemma delete_review_not_found:
  "find_one (\<lambda>r. review_id r = rid) (reviews s) = None
   \<Longrightarrow> delete_review rnd (Some usr) rid s
       = Inl (HTTPException 404 (Msg ''Recenzia nu a fost gasita''))"
  by (simp add: delete_review_def require_auth_def)

lemma admin_update_ad_status_unknown_ad:
  "find_one (\<lambda>a. ad_id a = aid) (ads s) = None \<Longrightarrow> role adm = ''admin''
   \<Longrightarrow> st \<in> set [''pending'', ''active'', ''rejected'', ''expired'']
   \<Longrightarrow> admin_update_ad_status (Some adm) aid (Some st) now s = Inr (st, s, [])"
  by (simp add: admin_update_ad_status_def require_admin_def require_auth_def
        update_one_not_found)

text \<open>
  Claim C8, at the input where the code departs from it. No ad of the example store has the
  id \<open>ad_404\<close>. The administrator's status update for that id is not rejected: it
  answers with the success message, writes nothing and notifies nobody. The topup of the
  same id is rejected with 404, as the claim says of every operation.
\<close>

theorem admin_status_update_unknown_ad:
  "find_one (\<lambda>a. ad_id a = ''ad_404'') (ads ex_db) = None
   \<and> admin_update_ad_status (Some ex_admin) ''ad_404'' (Some ''active'') 9000000 ex_db
       = Inr (''active'', ex_db, [])
   \<and> topup_ad (Some ex_user) ''ad_404'' 9000000 9000001 ex_db
       = Inl (HTTPException 404 (Msg ''Ad not found''))"
  by (simp add: admin_update_ad_status_def require_admin_def require_auth_def topup_ad_def
        ex_db_def ex_ad_def ex_admin_def)

section \<open>Payment orders and the gateway\<close>

lemma create_payment_order_record:
  assumes "create_payment_order auth body token_call order_call uid now s = Inr (r, s', ns)"
  shows "\<exists>usr tok oc p. auth = Some usr \<and> token_call = Response 200 (Some tok)
           \<and> order_call = Response 200 oc
           \<and> payments s' = payments s @ [p] \<and> order_code p = oc \<and> pay_status p = ''pending''
           \<and> pay_user_id p = u_user_id usr \<and> completed_at p = None
           \<and> ads s' = ads s \<and> users s' = users s \<and> reviews s' = reviews s"
  using assms
  by (auto simp: create_payment_order_def require_auth_def get_viva_access_token_def
        insert_one_def split: option.splits sum.splits http_outcome.splits if_splits)

lemma create_payment_order_token_failure:
  assumes "map_of PAYMENT_AMOUNTS pt = Some amt"
    and "\<forall>tok. token_call \<noteq> Response 200 (Some tok)"
  shows "create_payment_order (Some usr) \<lparr>pb_ad_id = aid, pb_payment_type = Some pt\<rparr>
           token_call order_call uid now s
         = Inl (HTTPException 502 (Msg ''Payment service unavailable''))"
  using assms
  by (auto simp: create_payment_order_def require_auth_def get_viva_access_token_def
        split: option.splits sum.splits http_outcome.splits)

lemma create_payment_order_refused:
  assumes "map_of PAYMENT_AMOUNTS pt = Some amt" and "code \<noteq> 200"
  shows "create_payment_order (Some usr) \<lparr>pb_ad_id = aid, pb_payment_type = Some pt\<rparr>
           (Response 200 (Some tok)) (Response code oc) uid now s
         = Inl (HTTPException 502 (Msg ''Failed to create payment order''))"
  using assms
  by (simp add: create_payment_order_def require_auth_def get_viva_access_token_def)

text \<open>
  Claim C7, at the input where the code departs from it. The token exchange succeeds and
  the order request raises (a timeout, a connection error): the exception leaves the
  handler as it is, where the claim has the service-unavailable error 502. The same
  exception in the token exchange, and an order response other than 200, do give 502.
  No payment order is recorded in any of the three cases.
\<close>

theorem create_payment_order_call_raises:
  "create_payment_order (Some ex_user) boost_order (Response 200 (Some ''token'')) Raised
     ''0123456789ab'' 9000000 ex_db = Inl PyException
   \<and> create_payment_order (Some ex_user) boost_order Raised (Response 200 (Some 1002))
     ''0123456789ab'' 9000000 ex_db
       = Inl (HTTPException 502 (Msg ''Payment service unavailable''))
   \<and> create_payment_order (Some ex_user) boost_order (Response 200 (Some ''token''))
     (Response 503 None) ''0123456789ab'' 9000000 ex_db
       = Inl (HTTPException 502 (Msg ''Failed to create payment order''))"
  by (simp add: create_payment_order_def require_auth_def get_viva_access_token_def
        boost_order_def PAYMENT_AMOUNTS_def)

section \<open>The seller's rating\<close>

lemma update_seller_rating_some:
  assumes "filter (\<lambda>r. seller_id r = sid) (reviews s) = rs" and "rs \<noteq> []"
    and "find_one (\<lambda>u. u_user_id u = sid) (users s) = Some u"
  shows "find_one (\<lambda>u. u_user_id u = sid) (users (update_seller_rating rnd sid s))
         = Some (u\<lparr>avg_rating :=
                     Some (rnd (of_int (sum_list (map rating rs)) / of_int (int (length rs)))),
                   total_reviews := Some (int (length rs))\<rparr>)"
  using assms by (simp add: update_seller_rating_def Let_def find_one_update_one)

lemma update_seller_rating_none:
  "filter (\<lambda>r. seller_id r = sid) (reviews s) = [] \<Longrightarrow> update_seller_rating rnd sid s = s"
  by (simp add: update_seller_rating_def)

text \<open>
  Claim C5, at the input where the code departs from it. A seller without reviews gets a
  first review of 5: the stored aggregate becomes the rounded 5 with one review. The
  reviewer deletes it: no review of the seller remains, and the stored aggregate is still
  the rounded 5 with one review, for \<open>update_seller_rating\<close> writes only when the
  aggregation finds a review.
\<close>

theorem last_review_deleted_rating_kept:
  "store_after review_db
     (create_review rnd (Some ex_user) five_stars ''0123456789ab'' review_db)
   = review_db\<lparr>users := [ex_user, ex_seller\<lparr>avg_rating := Some (rnd 5),
                                              total_reviews := Some 1\<rparr>],
               reviews := [\<lparr>review_id = ''rev_0123456789ab'', reviewer_id = ''user_1'',
                            seller_id = ''user_2'', rev_ad_id = None, rating = 5\<rparr>]\<rparr>
   \<and> delete_review rnd (Some ex_user) ''rev_0123456789ab''
       (store_after review_db
          (create_review rnd (Some ex_user) five_stars ''0123456789ab'' review_db))
     = Inr ((), review_db\<lparr>users := [ex_user, ex_seller\<lparr>avg_rating := Some (rnd 5),
                                                        total_reviews := Some 1\<rparr>],
                         reviews := []\<rparr>, [])"
  by (simp add: create_review_def delete_review_def update_seller_rating_def require_auth_def
        store_after_def review_db_def five_stars_def ex_user_def ex_seller_def insert_one_def
        Let_def)

section \<open>Listing\<close>





lemma bson_less_irrefl: "\<not> bson_less x x"
  by (cases x) auto

lemma bson_less_trans: "bson_less x y \<Longrightarrow> bson_less y z \<Longrightarrow> bson_less x z"
  by (cases x; cases y; cases z) auto


lemma bson_less_asym: "bson_less x y \<Longrightarrow> \<not> bson_less y x"
  using bson_less_irrefl bson_less_trans by blast


















end
